theory Spec2Isabelle
  imports Complex_Main "HOL-Library.AList"
begin

section \<open>Numbers, clock readings and library calls\<close>

text \<open>
  The engine of \<^verbatim>\<open>strategy.js\<close> works on JavaScript numbers. They are modelled as
  real numbers: every price is taken to be finite, and rounding of the binary
  representation is left out. A value that may be \<^verbatim>\<open>null\<close> or \<^verbatim>\<open>undefined\<close> is an
  option. A \<^verbatim>\<open>moment()\<close> reading is the number of milliseconds since the epoch.
\<close>

type_synonym symbol = string
type_synonym time = int
type_synonym addr = nat

definition RSI_PERIOD :: nat where
  "RSI_PERIOD = 14"

definition RSI_THRESHOLD_15m :: real where
  "RSI_THRESHOLD_15m = 10"

definition RSI_THRESHOLD_1m :: real where
  "RSI_THRESHOLD_1m = 30"

definition minute :: int where
  "minute = 60000"

text \<open>\<^verbatim>\<open>a.diff(b, 'minutes')\<close> of moment.js: the difference in minutes, cut towards zero.\<close>

definition diff_minutes :: "time \<Rightarrow> time \<Rightarrow> int" where
  "diff_minutes a b = (if a - b < 0 then - ((b - a) div minute) else (a - b) div minute)"

text \<open>
  \<^verbatim>\<open>x.toFixed(d)\<close> prints the decimal with \<open>d\<close> digits nearest to \<open>x\<close>, the larger one
  on a tie, the sign apart. The string is read back as a number wherever the program
  compares it, so the model keeps the number it denotes.
\<close>

definition toFixed :: "nat \<Rightarrow> real \<Rightarrow> real" where
  "toFixed d x =
     (if x < 0 then - (real_of_int \<lfloor>(- x) * 10 ^ d + 1 / 2\<rfloor> / 10 ^ d)
      else real_of_int \<lfloor>x * 10 ^ d + 1 / 2\<rfloor> / 10 ^ d)"

text \<open>
  Relational operators on a score that may be \<^verbatim>\<open>null\<close>: JavaScript converts \<^verbatim>\<open>null\<close>
  to \<open>0\<close> before it compares.
\<close>

definition null_lt :: "real option \<Rightarrow> real \<Rightarrow> bool" where
  "null_lt a b = (case a of None \<Rightarrow> 0 < b | Some x \<Rightarrow> x < b)"

definition null_gt :: "real option \<Rightarrow> real \<Rightarrow> bool" where
  "null_gt a b = (case a of None \<Rightarrow> 0 > b | Some x \<Rightarrow> x > b)"

text \<open>\<^verbatim>\<open>prices[prices.length - 1]\<close>: \<^verbatim>\<open>undefined\<close> on an empty array.\<close>

definition lastPrice :: "real list \<Rightarrow> real option" where
  "lastPrice prices = (if prices = [] then None else Some (last prices))"

section \<open>calculateRSI\<close>

text \<open>
  One round of the loop \<^verbatim>\<open>for (let i = 1; i < period; i++)\<close>: the pair holds
  \<^verbatim>\<open>gains\<close> and \<^verbatim>\<open>losses\<close>.
\<close>

definition rsi_round :: "real list \<Rightarrow> real \<times> real \<Rightarrow> nat \<Rightarrow> real \<times> real" where
  "rsi_round prices gl i =
     (let change = prices ! i - prices ! (i - 1)
      in if change > 0 then (fst gl + change, snd gl) else (fst gl, snd gl - change))"

text \<open>
  Every call site leaves \<^verbatim>\<open>period\<close> at its default \<^verbatim>\<open>RSI_PERIOD\<close>, so the model has no
  second argument. The length test keeps every index of the loop inside the array.
\<close>

definition calculateRSI :: "real list \<Rightarrow> real option" where
  "calculateRSI prices =
     (if length prices < RSI_PERIOD then None
      else
        let gl = foldl (rsi_round prices) (0, 0) [1..<RSI_PERIOD];
            avgGain = fst gl / real RSI_PERIOD;
            avgLoss = snd gl / real RSI_PERIOD
        in if avgLoss = 0 then Some 100
           else Some (100 - 100 / (1 + avgGain / avgLoss)))"

text \<open>
  The score as the specification words it: the formula on a list of deltas, each sum
  divided by \<^verbatim>\<open>period\<close>, taken over the first \<^verbatim>\<open>period\<close> deltas of a sequence of at
  least \<^verbatim>\<open>period + 1\<close> prices.
\<close>

definition first_deltas :: "nat \<Rightarrow> real list \<Rightarrow> real list" where
  "first_deltas n prices = map (\<lambda>i. prices ! (i + 1) - prices ! i) [0..<n]"

definition score_over :: "real list \<Rightarrow> real" where
  "score_over deltas =
     (let avgGain = (\<Sum>d\<leftarrow>deltas. if d > 0 then d else 0) / real RSI_PERIOD;
          avgLoss = (\<Sum>d\<leftarrow>deltas. if d > 0 then 0 else - d) / real RSI_PERIOD
      in if avgLoss = 0 then 100 else 100 - 100 / (1 + avgGain / avgLoss))"

definition spec_score :: "real list \<Rightarrow> real" where
  "spec_score prices = score_over (first_deltas RSI_PERIOD prices)"

section \<open>Module state\<close>

text \<open>
  The module-level variables of \<^verbatim>\<open>strategy.js\<close> and the effects of a sweep on the two
  log files and on the Telegram channel. Arrays are objects that two variables may
  share (\<^verbatim>\<open>sellPrices[symbol].entryPrices\<close> is the very array of
  \<^verbatim>\<open>entryPrices[symbol]\<close>), so they live in a store and the variables hold addresses.
  \<^verbatim>\<open>sellPrices\<close> is walked with \<^verbatim>\<open>for ... in\<close>, in the order in which its keys were
  inserted, so it is an association list; the other objects are maps.
\<close>

record btc_entry =
  price :: real
  timestamp :: time

record signal =
  entryPricesRef :: addr
  sellPrice :: real
  messageId :: "nat option"
  buyTime :: time

datatype percent = Percent real | NotFinite

datatype message =
    BuySignal symbol "real list" real
  | TargetAchieved symbol "real list" real "real option" percent int

record closed_signal =
  cs_symbol :: symbol
  cs_entryPrices :: "real list"
  cs_sellPrice :: real
  cs_duration :: int
  cs_bottomPrice :: "real option"
  cs_percentageDrop :: percent

text \<open>The reference-asset variables, which both variants of the module declare alike.\<close>

record tracker =
  lastBTCPrice :: "real option"
  btcPriceHistory :: "btc_entry list"

record state = tracker +
  lastNotificationTimes :: "symbol \<rightharpoonup> time"
  sellPrices :: "(symbol \<times> signal) list"
  bottomPrices :: "symbol \<rightharpoonup> real"
  entryPrices :: "symbol \<rightharpoonup> addr"
  arrays :: "addr \<Rightarrow> real list"
  nextAddr :: addr
  rsiLog :: "(symbol \<times> real option \<times> real option \<times> real option) list"
  buyLog :: "closed_signal list"
  sent :: "message list"
  edited :: "(nat option \<times> message) list"

definition initial :: state where
  "initial = \<lparr> lastBTCPrice = None, btcPriceHistory = [],
     lastNotificationTimes = Map.empty, sellPrices = [], bottomPrices = Map.empty,
     entryPrices = Map.empty, arrays = (\<lambda>_. []), nextAddr = 0,
     rsiLog = [], buyLog = [], sent = [], edited = [] \<rparr>"

datatype error = TypeError

section \<open>Reference asset: fetchBTCPrice and calculateBTCChanges\<close>

text \<open>
  \<open>response\<close> is the price the ticker request delivers, \<open>None\<close> when the request
  throws. The clock readings of one call are taken at the same instant \<open>now\<close>.
  The result is the returned price and the state with the sample pushed and the
  samples of more than 31 minutes shifted out at the front.
\<close>

definition fetchBTCPrice ::
  "real option \<Rightarrow> time \<Rightarrow> 'a tracker_scheme \<Rightarrow> real option \<times> 'a tracker_scheme" where
  "fetchBTCPrice response now s =
     (case response of
        None \<Rightarrow> (None, s)
      | Some p \<Rightarrow>
          let pushed = btcPriceHistory s @ [\<lparr> price = p, timestamp = now \<rparr>];
              thirtyOneMinutesAgo = now - 31 * minute
          in (Some p,
              s\<lparr> btcPriceHistory := dropWhile (\<lambda>e. timestamp e < thirtyOneMinutesAgo) pushed \<rparr>))"

text \<open>
  A percentage with two digits. The quotient by a zero price is no finite number
  (\<^verbatim>\<open>toFixed\<close> prints \<^verbatim>\<open>Infinity\<close> or \<^verbatim>\<open>NaN\<close>).
\<close>

definition percentChange :: "real \<Rightarrow> real \<Rightarrow> percent" where
  "percentChange current old =
     (if old = 0 then NotFinite else Percent (toFixed 2 ((current - old) / old * 100)))"

record btc_changes =
  btc_price :: "real option"
  change :: "percent option"
  change30m :: "percent option"

text \<open>The sample that \<^verbatim>\<open>btcPriceHistory.find\<close> picks as the 30-minute comparator.\<close>

definition oldPrice :: "time \<Rightarrow> btc_entry list \<Rightarrow> btc_entry option" where
  "oldPrice now history = List.find (\<lambda>e. timestamp e \<le> now - 30 * minute) history"

text \<open>
  \<^verbatim>\<open>!currentBTCPrice\<close> and \<^verbatim>\<open>if (lastBTCPrice)\<close> are truth tests: \<^verbatim>\<open>null\<close> and \<open>0\<close>
  both fail them.
\<close>

definition calculateBTCChanges ::
  "real option \<Rightarrow> time \<Rightarrow> 'a tracker_scheme \<Rightarrow> btc_changes \<times> 'a tracker_scheme" where
  "calculateBTCChanges response now s =
     (case fetchBTCPrice response now s of (fetched, s1) \<Rightarrow>
        (case fetched of
           None \<Rightarrow> (\<lparr> btc_price = None, change = None, change30m = None \<rparr>, s1)
         | Some currentBTCPrice \<Rightarrow>
             if currentBTCPrice = 0
             then (\<lparr> btc_price = None, change = None, change30m = None \<rparr>, s1)
             else
               let priceChange =
                     (case lastBTCPrice s1 of
                        None \<Rightarrow> None
                      | Some l \<Rightarrow> if l = 0 then None else Some (percentChange currentBTCPrice l));
                   priceChange30m =
                     (case oldPrice now (btcPriceHistory s1) of
                        None \<Rightarrow> None
                      | Some old \<Rightarrow> Some (percentChange currentBTCPrice (price old)))
               in (\<lparr> btc_price = Some currentBTCPrice, change = priceChange,
                     change30m = priceChange30m \<rparr>,
                   s1\<lparr> lastBTCPrice := Some currentBTCPrice \<rparr>)))"

section \<open>Telegram and the log files\<close>

text \<open>
  \<^verbatim>\<open>sendTelegramMessage\<close> returns the identifier of the delivered message, and
  \<^verbatim>\<open>undefined\<close> when the request fails: \<open>result\<close> is what the channel answers.
  \<^verbatim>\<open>editTelegramMessage\<close> returns nothing either way.
\<close>

definition sendTelegramMessage :: "message \<Rightarrow> nat option \<Rightarrow> state \<Rightarrow> nat option \<times> state" where
  "sendTelegramMessage msg result s = (result, s\<lparr> sent := sent s @ [msg] \<rparr>)"

definition editTelegramMessage :: "nat option \<Rightarrow> message \<Rightarrow> state \<Rightarrow> state" where
  "editTelegramMessage mid msg s = s\<lparr> edited := edited s @ [(mid, msg)] \<rparr>"

definition logRSIAndPrice ::
  "symbol \<Rightarrow> real option \<Rightarrow> real option \<Rightarrow> real option \<Rightarrow> state \<Rightarrow> state" where
  "logRSIAndPrice symbol rsi15m rsi1m currentPrice s =
     s\<lparr> rsiLog := rsiLog s @ [(symbol, rsi15m, rsi1m, currentPrice)] \<rparr>"

definition logBuySignal :: "closed_signal \<Rightarrow> state \<Rightarrow> state" where
  "logBuySignal row s = s\<lparr> buyLog := buyLog s @ [row] \<rparr>"

section \<open>handleRSI: the detection sweep of one symbol\<close>

text \<open>
  What one call of \<^verbatim>\<open>handleRSI\<close> receives from outside: the two candle requests
  (\<open>None\<close> when the request throws), the ticker request, the clock and the answer
  of the Telegram channel.
\<close>

record sweep =
  prices15m :: "real list option"
  prices1m :: "real list option"
  btcResponse :: "real option"
  btcClock :: time
  clock :: time
  sendResult :: "nat option"

definition unshift :: "addr \<Rightarrow> real \<Rightarrow> state \<Rightarrow> state" where
  "unshift a x s = s\<lparr> arrays := (arrays s)(a := x # arrays s a) \<rparr>"

text \<open>
  The block under \<^verbatim>\<open>if (existingSignal)\<close>. \<^verbatim>\<open>&&\<close> and \<^verbatim>\<open>||\<close> evaluate from the left and
  stop early: \<^verbatim>\<open>entryPrices[symbol].length\<close> is read only when the price is below the
  sell price, and throws a TypeError when \<^verbatim>\<open>entryPrices[symbol]\<close> is undefined.
  A comparison with an undefined price is false.
\<close>

definition averageDown :: "symbol \<Rightarrow> signal \<Rightarrow> real option \<Rightarrow> state \<Rightarrow> error + state" where
  "averageDown symbol existingSignal currentPrice s =
     (case currentPrice of
        None \<Rightarrow> Inr s
      | Some cp \<Rightarrow>
          if cp < sellPrice existingSignal then
            (case entryPrices s symbol of
               None \<Rightarrow> Inl TypeError
             | Some a \<Rightarrow>
                 if length (arrays s a) = 0 \<or> cp < hd (arrays s a) then
                   let s1 = unshift a cp s;
                       updatedMessage = BuySignal symbol (arrays s1 a) (sellPrice existingSignal)
                   in Inr (editTelegramMessage (messageId existingSignal) updatedMessage s1)
                 else Inr s)
          else Inr s)"

text \<open>\<^verbatim>\<open>lastNotificationTime && currentTime.diff(lastNotificationTime, 'minutes') < 30\<close>\<close>

definition notifiedRecently :: "symbol \<Rightarrow> time \<Rightarrow> state \<Rightarrow> bool" where
  "notifiedRecently symbol currentTime s =
     (case lastNotificationTimes s symbol of
        None \<Rightarrow> False
      | Some lastNotificationTime \<Rightarrow> diff_minutes currentTime lastNotificationTime < 30)"

text \<open>
  \<^verbatim>\<open>if (!entryPrices[symbol]) entryPrices[symbol] = []\<close>: a fresh array only when the
  symbol has none; an array is truthy even when it is empty.
\<close>

definition entryArray :: "symbol \<Rightarrow> state \<Rightarrow> addr \<times> state" where
  "entryArray symbol s =
     (case entryPrices s symbol of
        Some a \<Rightarrow> (a, s)
      | None \<Rightarrow>
          (nextAddr s,
           s\<lparr> entryPrices := (entryPrices s)(symbol \<mapsto> nextAddr s),
              arrays := (arrays s)(nextAddr s := []),
              nextAddr := Suc (nextAddr s) \<rparr>))"

text \<open>
  From the assignment of \<^verbatim>\<open>lastNotificationTimes[symbol]\<close> to the point where the message
  is handed to \<^verbatim>\<open>sendTelegramMessage\<close>: the result is the message, the sell price, the
  address of the entry array, and the state in which the message is dispatched.
\<close>

definition prepareSignal ::
  "symbol \<Rightarrow> real \<Rightarrow> time \<Rightarrow> state \<Rightarrow> (message \<times> real \<times> addr) \<times> state" where
  "prepareSignal symbol currentPrice currentTime s =
     (let s1 = s\<lparr> lastNotificationTimes := (lastNotificationTimes s)(symbol \<mapsto> currentTime) \<rparr>
      in case entryArray symbol s1 of (a, s2) \<Rightarrow>
           let s3 = unshift a currentPrice s2;
               sp = toFixed 8 (hd (arrays s3 a) * (1011 / 1000))
           in ((BuySignal symbol (arrays s3 a) sp, sp, a), s3))"

text \<open>
  The two assignments after the \<^verbatim>\<open>await\<close> of the send. \<open>a\<close> is the array that
  \<^verbatim>\<open>entryPrices[symbol]\<close> holds, the one the price was prepended to.
\<close>

definition trackSignal ::
  "symbol \<Rightarrow> real \<Rightarrow> real \<Rightarrow> addr \<Rightarrow> time \<Rightarrow> nat option \<Rightarrow> state \<Rightarrow> state" where
  "trackSignal symbol currentPrice sp a currentTime mid s =
     s\<lparr> sellPrices :=
          AList.update symbol
            \<lparr> entryPricesRef = a, sellPrice = sp, messageId = mid, buyTime = currentTime \<rparr>
            (sellPrices s),
        bottomPrices := (bottomPrices s)(symbol \<mapsto> currentPrice) \<rparr>"

text \<open>
  The raise test needs a numeric one-minute score, hence at least \<^verbatim>\<open>RSI_PERIOD\<close>
  prices, so the current price is defined wherever the branch is entered; the
  model leaves the state as it is on the other, unreachable, case.
\<close>

definition raiseSignal :: "symbol \<Rightarrow> sweep \<Rightarrow> real option \<Rightarrow> state \<Rightarrow> state" where
  "raiseSignal symbol env currentPrice s =
     (if notifiedRecently symbol (clock env) s then s
      else
        (case currentPrice of
           None \<Rightarrow> s
         | Some cp \<Rightarrow>
             (case prepareSignal symbol cp (clock env) s of ((msg, sp, a), s1) \<Rightarrow>
                (case sendTelegramMessage msg (sendResult env) s1 of (mid, s2) \<Rightarrow>
                   trackSignal symbol cp sp a (clock env) mid s2))))"

definition handleRSI :: "symbol \<Rightarrow> sweep \<Rightarrow> state \<Rightarrow> error + state" where
  "handleRSI symbol env s =
     (case calculateBTCChanges (btcResponse env) (btcClock env) s of (btcData, s0) \<Rightarrow>
        (case prices15m env of
           None \<Rightarrow> Inr s0
         | Some p15 \<Rightarrow>
             (case prices1m env of
                None \<Rightarrow> Inr s0
              | Some p1 \<Rightarrow>
                  let rsi15m = calculateRSI p15;
                      rsi1m = calculateRSI p1;
                      currentPrice = lastPrice p1;
                      s1 = logRSIAndPrice symbol rsi15m rsi1m currentPrice s0
                  in (case map_of (sellPrices s1) symbol of
                        Some existingSignal \<Rightarrow> averageDown symbol existingSignal currentPrice s1
                      | None \<Rightarrow>
                          if null_lt rsi15m RSI_THRESHOLD_15m \<and> null_gt rsi1m RSI_THRESHOLD_1m
                          then Inr (raiseSignal symbol env currentPrice s1)
                          else Inr s1))))"

section \<open>checkTargetAchieved: the target-check sweep\<close>

text \<open>
  The body of the loop for one key. The destructuring
  \<^verbatim>\<open>const { sellPrice, entryPrices, messageId, buyTime } = sellPrices[symbol]\<close> binds a
  local \<^verbatim>\<open>entryPrices\<close>, the array of the signal, which hides the module-level object
  of that name until the end of the body. So \<^verbatim>\<open>delete entryPrices[symbol]\<close> asks the
  array to drop a property named like the symbol. The symbols are trading pairs that
  end in \<^verbatim>\<open>USDT\<close> (\<^verbatim>\<open>index.js\<close>), never an index, so the array stays as it is, and
  so does the module-level object: the model has no update for that statement.
\<close>

definition percentageDrop :: "real list \<Rightarrow> real option \<Rightarrow> percent" where
  "percentageDrop entries bottomPrice =
     (case entries of
        [] \<Rightarrow> NotFinite
      | first # _ \<Rightarrow>
          (case bottomPrice of
             None \<Rightarrow> NotFinite
           | Some b \<Rightarrow>
               if first = 0 then NotFinite
               else Percent (toFixed 2 ((first - b) / first * 100))))"

definition checkTarget :: "symbol \<Rightarrow> real list option \<Rightarrow> time \<Rightarrow> state \<Rightarrow> state" where
  "checkTarget symbol prices now s =
     (case map_of (sellPrices s) symbol of
        None \<Rightarrow> s
      | Some sig \<Rightarrow>
          (case prices of
             None \<Rightarrow> s
           | Some ps \<Rightarrow>
               (case lastPrice ps of
                  None \<Rightarrow> s
                | Some currentPrice \<Rightarrow>
                    if currentPrice \<ge> sellPrice sig then
                      let entries = arrays s (entryPricesRef sig);
                          duration = now - buyTime sig;
                          bottomPrice = bottomPrices s symbol;
                          drop = percentageDrop entries bottomPrice;
                          newMessage =
                            TargetAchieved symbol entries (sellPrice sig) bottomPrice drop duration;
                          s1 = editTelegramMessage (messageId sig) newMessage s;
                          s2 = logBuySignal
                                 \<lparr> cs_symbol = symbol, cs_entryPrices = entries,
                                   cs_sellPrice = sellPrice sig, cs_duration = duration,
                                   cs_bottomPrice = bottomPrice, cs_percentageDrop = drop \<rparr> s1
                      in s2\<lparr> sellPrices := AList.delete symbol (sellPrices s2),
                             bottomPrices := (bottomPrices s2)(symbol := None) \<rparr>
                    else s)))"

text \<open>
  \<^verbatim>\<open>for (const symbol in sellPrices)\<close> visits the keys present when the loop starts, in
  insertion order; \<open>fetched\<close> gives, for each symbol, the answer of the candle request
  and the clock reading of that round.
\<close>

definition checkTargetAchieved :: "(symbol \<Rightarrow> real list option \<times> time) \<Rightarrow> state \<Rightarrow> state" where
  "checkTargetAchieved fetched s =
     foldl (\<lambda>s' symbol. checkTarget symbol (fst (fetched symbol)) (snd (fetched symbol)) s') s
       (map fst (sellPrices s))"

section \<open>Runs of sweeps\<close>

text \<open>
  \<^verbatim>\<open>index.js\<close> starts a detection sweep for every tracked pair and a target check on
  timers. Node runs them on one thread; a sweep is taken here as one step. A
  TypeError that escapes \<^verbatim>\<open>handleRSI\<close> ends the run.
\<close>

datatype event =
    Detect symbol sweep
  | TargetCheck "symbol \<Rightarrow> real list option \<times> time"

fun step :: "event \<Rightarrow> state \<Rightarrow> error + state" where
  "step (Detect symbol env) s = handleRSI symbol env s"
| "step (TargetCheck fetched) s = Inr (checkTargetAchieved fetched s)"

fun run :: "event list \<Rightarrow> state \<Rightarrow> error + state" where
  "run [] s = Inr s"
| "run (e # es) s = (case step e s of Inl err \<Rightarrow> Inl err | Inr s' \<Rightarrow> run es s')"

text \<open>
  A position of \<open>symbol\<close> stays open along a run: it is there before every step
  and at the end, and no step throws.
\<close>

fun stays_open :: "symbol \<Rightarrow> event list \<Rightarrow> state \<Rightarrow> bool" where
  "stays_open symbol [] s = (map_of (sellPrices s) symbol \<noteq> None)"
| "stays_open symbol (e # es) s =
     (map_of (sellPrices s) symbol \<noteq> None \<and>
      (case step e s of Inl err \<Rightarrow> False | Inr s' \<Rightarrow> stays_open symbol es s'))"

text \<open>The entry prices of the open position of a symbol, if it has one.\<close>

definition entriesOf :: "symbol \<Rightarrow> state \<Rightarrow> real list option" where
  "entriesOf symbol s =
     map_option (\<lambda>sig. arrays s (entryPricesRef sig)) (map_of (sellPrices s) symbol)"

text \<open>The test \<^verbatim>\<open>rsi15m < RSI_THRESHOLD_15m && rsi1m > RSI_THRESHOLD_1m\<close> on fetched data.\<close>

definition raiseCondition :: "sweep \<Rightarrow> bool" where
  "raiseCondition env =
     (case prices15m env of
        None \<Rightarrow> False
      | Some p15 \<Rightarrow>
          (case prices1m env of
             None \<Rightarrow> False
           | Some p1 \<Rightarrow>
               null_lt (calculateRSI p15) RSI_THRESHOLD_15m \<and>
               null_gt (calculateRSI p1) RSI_THRESHOLD_1m))"

section \<open>The second variant of the module\<close>

text \<open>
  The repository holds a second file with the same functions: thresholds 60 and 10,
  a cooldown of five minutes, one buy price instead of a list of entries, and a
  target check that also follows the bottom price and asks for the reference
  price. \<^verbatim>\<open>calculateRSI\<close>, \<^verbatim>\<open>fetchBTCPrice\<close> and \<^verbatim>\<open>calculateBTCChanges\<close> are the same
  text in both files. The body of its \<^verbatim>\<open>logBuySignal\<close> is commented out, so a closed
  signal writes nothing. Names of this variant end in \<open>V\<close>.
\<close>

definition RSI_THRESHOLD_15mV :: real where
  "RSI_THRESHOLD_15mV = 60"

definition RSI_THRESHOLD_1mV :: real where
  "RSI_THRESHOLD_1mV = 10"

record signalV =
  buyPrice :: real
  sellPriceOf :: real
  messageIdOf :: "nat option"
  buyTimeOf :: time
  btcPriceAtBuy :: "real option"

datatype messageV =
    BuySignalV symbol real real btc_changes
  | TargetAchievedV symbol real real "real option" percent "percent option" btc_changes int

record stateV = tracker +
  lastNotificationTimesV :: "symbol \<rightharpoonup> time"
  sellPricesV :: "(symbol \<times> signalV) list"
  bottomPricesV :: "symbol \<rightharpoonup> real"
  rsiLogV :: "(symbol \<times> real option \<times> real option \<times> real option) list"
  sentV :: "messageV list"
  editedV :: "(nat option \<times> messageV) list"

definition notifiedRecentlyV :: "symbol \<Rightarrow> time \<Rightarrow> stateV \<Rightarrow> bool" where
  "notifiedRecentlyV symbol currentTime s =
     (case lastNotificationTimesV s symbol of
        None \<Rightarrow> False
      | Some lastNotificationTime \<Rightarrow> diff_minutes currentTime lastNotificationTime < 5)"

definition raiseSignalV ::
  "symbol \<Rightarrow> sweep \<Rightarrow> btc_changes \<Rightarrow> real option \<Rightarrow> stateV \<Rightarrow> stateV" where
  "raiseSignalV symbol env btcData currentPrice s =
     (if notifiedRecentlyV symbol (clock env) s then s
      else
        (case currentPrice of
           None \<Rightarrow> s
         | Some cp \<Rightarrow>
             let s1 = s\<lparr> lastNotificationTimesV :=
                          (lastNotificationTimesV s)(symbol \<mapsto> clock env) \<rparr>;
                 sp = toFixed 8 (cp * (1011 / 1000));
                 s2 = s1\<lparr> sentV := sentV s1 @ [BuySignalV symbol cp sp btcData] \<rparr>
             in s2\<lparr> sellPricesV :=
                      AList.update symbol
                        \<lparr> buyPrice = cp, sellPriceOf = sp, messageIdOf = sendResult env,
                          buyTimeOf = clock env, btcPriceAtBuy = btc_price btcData \<rparr>
                        (sellPricesV s2),
                    bottomPricesV := (bottomPricesV s2)(symbol \<mapsto> cp) \<rparr>))"

definition handleRSIV :: "symbol \<Rightarrow> sweep \<Rightarrow> stateV \<Rightarrow> stateV" where
  "handleRSIV symbol env s =
     (case calculateBTCChanges (btcResponse env) (btcClock env) s of (btcData, s0) \<Rightarrow>
        (case prices15m env of
           None \<Rightarrow> s0
         | Some p15 \<Rightarrow>
             (case prices1m env of
                None \<Rightarrow> s0
              | Some p1 \<Rightarrow>
                  let rsi15m = calculateRSI p15;
                      rsi1m = calculateRSI p1;
                      currentPrice = lastPrice p1;
                      s1 = s0\<lparr> rsiLogV := rsiLogV s0 @ [(symbol, rsi15m, rsi1m, currentPrice)] \<rparr>
                  in if null_lt rsi15m RSI_THRESHOLD_15mV \<and> null_gt rsi1m RSI_THRESHOLD_1mV
                     then raiseSignalV symbol env btcData currentPrice s1
                     else s1)))"

text \<open>What one round of the target check of this variant receives from outside.\<close>

record roundV =
  pricesV :: "real list option"
  btcResponseV :: "real option"
  btcClockV :: time
  nowV :: time

definition percentageDropV :: "real \<Rightarrow> real option \<Rightarrow> percent" where
  "percentageDropV bought bottomPrice =
     (case bottomPrice of
        None \<Rightarrow> NotFinite
      | Some b \<Rightarrow>
          if bought = 0 then NotFinite
          else Percent (toFixed 2 ((bought - b) / bought * 100)))"

text \<open>\<^verbatim>\<open>if (currentPrice < bottomPrices[symbol]) bottomPrices[symbol] = currentPrice\<close>\<close>

definition lowerBottomV :: "symbol \<Rightarrow> real \<Rightarrow> stateV \<Rightarrow> stateV" where
  "lowerBottomV symbol currentPrice s =
     (case bottomPricesV s symbol of
        None \<Rightarrow> s
      | Some b \<Rightarrow>
          if currentPrice < b then s\<lparr> bottomPricesV := (bottomPricesV s)(symbol \<mapsto> currentPrice) \<rparr>
          else s)"

definition checkTargetV :: "symbol \<Rightarrow> roundV \<Rightarrow> stateV \<Rightarrow> stateV" where
  "checkTargetV symbol r s =
     (case map_of (sellPricesV s) symbol of
        None \<Rightarrow> s
      | Some sig \<Rightarrow>
          (case calculateBTCChanges (btcResponseV r) (btcClockV r) s of (btcData, s0) \<Rightarrow>
             (case pricesV r of
                None \<Rightarrow> s0
              | Some ps \<Rightarrow>
                  (case lastPrice ps of
                     None \<Rightarrow> s0
                   | Some currentPrice \<Rightarrow>
                       let s1 = lowerBottomV symbol currentPrice s0
                       in if currentPrice \<ge> sellPriceOf sig then
                            let duration = nowV r - buyTimeOf sig;
                                bottomPrice = bottomPricesV s1 symbol;
                                drop = percentageDropV (buyPrice sig) bottomPrice;
                                btcChange =
                                  (case btcPriceAtBuy sig of
                                     None \<Rightarrow> None
                                   | Some atBuy \<Rightarrow>
                                       if atBuy = 0 then None
                                       else map_option (\<lambda>cur. percentChange cur atBuy)
                                              (btc_price btcData));
                                newMessage =
                                  TargetAchievedV symbol (buyPrice sig) (sellPriceOf sig)
                                    bottomPrice drop btcChange btcData duration;
                                s2 = s1\<lparr> editedV := editedV s1 @ [(messageIdOf sig, newMessage)] \<rparr>
                            in s2\<lparr> sellPricesV := AList.delete symbol (sellPricesV s2),
                                   bottomPricesV := (bottomPricesV s2)(symbol := None) \<rparr>
                          else s1))))"

definition checkTargetAchievedV :: "(symbol \<Rightarrow> roundV) \<Rightarrow> stateV \<Rightarrow> stateV" where
  "checkTargetAchievedV fetched s =
     foldl (\<lambda>s' symbol. checkTargetV symbol (fetched symbol) s') s (map fst (sellPricesV s))"

section \<open>Inputs of the scenarios\<close>

definition dip_at_end :: "real list" where
  "dip_at_end = [1, 2, 2, 2, 2, 2, 2, 2, 2, 2, 2, 2, 2, 2, 1]"


definition falling :: "real list" where
  "falling = [15, 14, 13, 12, 11, 10, 9, 8, 7, 6, 5, 4, 3, 2, 1]"

definition flat :: "real \<Rightarrow> real list" where
  "flat p = [p, p, p, p, p, p, p, p, p, p, p, p, p, p, p]"

text \<open>
  A sweep at time \<open>t\<close> with a falling 15-minute series (score 0), a level one-minute
  series at \<open>p\<close> (score 100), no answer from the ticker and the answer \<open>mid\<close> from
  the Telegram channel.
\<close>

definition sweepAt :: "real \<Rightarrow> time \<Rightarrow> nat option \<Rightarrow> sweep" where
  "sweepAt p t mid = \<lparr> prices15m = Some falling, prices1m = Some (flat p), btcResponse = None,
     btcClock = t, clock = t, sendResult = mid \<rparr>"

definition quote :: "real \<Rightarrow> time \<Rightarrow> symbol \<Rightarrow> real list option \<times> time" where
  "quote p t = (\<lambda>symbol. (Some (flat p), t))"

text \<open>
  The state after the sweep \<open>sweepAt 100 0 None\<close> has opened a position of
  \<^verbatim>\<open>ETHUSDT\<close> from the initial state (the send fails), and after a target check at
  102 has closed it.
\<close>

definition afterOpen :: state where
  "afterOpen =
     (case handleRSI ''ETHUSDT'' (sweepAt 100 0 None) initial of
        Inr s \<Rightarrow> s
      | Inl err \<Rightarrow> initial)"

definition afterClose :: state where
  "afterClose = checkTargetAchieved (quote 102 20000) afterOpen"

text \<open>
  Events after the opening: the price dips to 90, a target check sees 95, another
  symbol raises a signal, the price dips to 80.
\<close>

definition dips :: "event list" where
  "dips = [Detect ''ETHUSDT'' (sweepAt 90 20000 None), TargetCheck (quote 95 40000),
           Detect ''BNBUSDT'' (sweepAt 5 60000 (Some 9)),
           Detect ''ETHUSDT'' (sweepAt 80 60000 None)]"



definition atDispatch :: state where
  "atDispatch =
     snd (prepareSignal ''ETHUSDT'' 100 0
            (logRSIAndPrice ''ETHUSDT'' (calculateRSI falling) (calculateRSI (flat 100)) (Some 100)
               (snd (calculateBTCChanges None 0 initial))))"

text \<open>
  Reference samples read at minute 35: aged 35, 20 and 5 minutes, and aged 30, 20
  and 5 minutes.
\<close>

definition samples_35_20_5 :: "btc_entry list" where
  "samples_35_20_5 =
     [\<lparr> price = 100, timestamp = 0 \<rparr>, \<lparr> price = 104, timestamp = 15 * minute \<rparr>,
      \<lparr> price = 108, timestamp = 30 * minute \<rparr>]"

definition samples_30_20_5 :: "btc_entry list" where
  "samples_30_20_5 =
     [\<lparr> price = 100, timestamp = 5 * minute \<rparr>, \<lparr> price = 104, timestamp = 15 * minute \<rparr>,
      \<lparr> price = 108, timestamp = 30 * minute \<rparr>]"

section \<open>Properties of calculateRSI\<close>

lemma rsi_rounds: "[Suc 0..<14] = [1, 2, 3, 4, 5, 6, 7, 8, 9, 10, 11, 12, 13]"
  by (simp add: upt_conv_Cons)

lemma spec_rounds: "[0..<14] = [0, 1, 2, 3, 4, 5, 6, 7, 8, 9, 10, 11, 12, 13]"
  by (simp add: upt_conv_Cons)

lemma rsi_falling: "calculateRSI falling = Some 0"
  by (simp add: calculateRSI_def RSI_PERIOD_def falling_def rsi_round_def rsi_rounds)

lemma rsi_flat: "calculateRSI (flat p) = Some 100"
  by (simp add: calculateRSI_def RSI_PERIOD_def flat_def rsi_round_def rsi_rounds)

lemma last_flat: "lastPrice (flat p) = Some p"
  by (simp add: lastPrice_def flat_def)

text \<open>
  The loop reads the prices at the indices \<open>0\<close> to \<open>RSI_PERIOD - 1\<close> only: what
  follows the first \<open>RSI_PERIOD\<close> prices has no influence on the score.
\<close>

lemma rsi_round_take:
  assumes "i < n" "n \<le> length prices"
  shows "rsi_round (take n prices) gl i = rsi_round prices gl i"
  using assms by (simp add: rsi_round_def)

lemma foldl_rsi_round_take:
  assumes "n \<le> length prices" "\<forall>i\<in>set is. i < n"
  shows "foldl (rsi_round (take n prices)) gl is = foldl (rsi_round prices) gl is"
  using assms by (induction "is" arbitrary: gl) (simp_all add: rsi_round_take)

lemma calculateRSI_first_prices:
  assumes "RSI_PERIOD \<le> length prices"
  shows "calculateRSI prices = calculateRSI (take RSI_PERIOD prices)"
proof -
  have "foldl (rsi_round (take RSI_PERIOD prices)) (0, 0) [1..<RSI_PERIOD]
      = foldl (rsi_round prices) (0, 0) [1..<RSI_PERIOD]"
    using assms by (intro foldl_rsi_round_take) auto
  then show ?thesis
    using assms by (simp add: calculateRSI_def)
qed

text \<open>
  What the loop computes on at least \<open>RSI_PERIOD\<close> prices: the formula over the
  first \<open>RSI_PERIOD - 1\<close> deltas, the 13 deltas among the first 14 prices.
\<close>

lemma rsi_round_sums:
  "foldl (rsi_round prices) (g, l) (map Suc js) =
     (g + (\<Sum>d\<leftarrow>map (\<lambda>i. prices ! (i + 1) - prices ! i) js. if d > 0 then d else 0),
      l + (\<Sum>d\<leftarrow>map (\<lambda>i. prices ! (i + 1) - prices ! i) js. if d > 0 then 0 else - d))"
  by (induction js arbitrary: g l) (simp_all add: rsi_round_def Let_def)

lemma rsi_indices: "[1..<RSI_PERIOD] = map Suc [0..<RSI_PERIOD - 1]"
  by (simp add: RSI_PERIOD_def map_Suc_upt)

lemma calculateRSI_score:
  assumes "RSI_PERIOD \<le> length prices"
  shows "calculateRSI prices = Some (score_over (first_deltas (RSI_PERIOD - 1) prices))"
  using assms
  unfolding calculateRSI_def rsi_indices rsi_round_sums score_over_def first_deltas_def
  by (simp add: Let_def)

text \<open>
  C4. The score is to be \<open>100 - 100 / (1 + avgGain / avgLoss)\<close> with gains and losses
  summed over the first 14 deltas of a sequence of at least 15 prices. The loop of
  \<^verbatim>\<open>calculateRSI\<close> runs \<open>i\<close> from 1 to 13 and so sums 13 deltas: on 15 prices that rise
  once and fall at the very end it sees no loss and returns 100, where the 14 deltas
  give 50.
\<close>

theorem calculateRSI_misses_last_delta:
  "RSI_PERIOD + 1 \<le> length dip_at_end \<and>
   calculateRSI dip_at_end = Some 100 \<and> spec_score dip_at_end = 50"
  by (simp add: calculateRSI_def spec_score_def score_over_def first_deltas_def RSI_PERIOD_def
      dip_at_end_def rsi_round_def rsi_rounds spec_rounds)




section \<open>Three runs of the engine\<close>

text \<open>Unfolding the sweeps on the inputs of the scenarios.\<close>

lemmas sweep_simps =
  handleRSI_def calculateBTCChanges_def fetchBTCPrice_def sweepAt_def quote_def
  rsi_falling rsi_flat last_flat logRSIAndPrice_def initial_def null_lt_def null_gt_def
  RSI_THRESHOLD_15m_def RSI_THRESHOLD_1m_def raiseSignal_def notifiedRecently_def
  prepareSignal_def entryArray_def unshift_def sendTelegramMessage_def trackSignal_def
  toFixed_def averageDown_def editTelegramMessage_def checkTargetAchieved_def
  checkTarget_def logBuySignal_def percentageDrop_def diff_minutes_def minute_def
  entriesOf_def Let_def

lemmas scene_simps = sweep_simps afterOpen_def afterClose_def raiseCondition_def

text \<open>
  C1. A sweep that opens a position is to leave exactly the current price in the
  entry list, also when the symbol had a position before. A position is opened at
  100, closed by a target check at 102, and opened again half an hour later at 90:
  the entry list of the new position is \<open>[90, 100]\<close>, not \<open>[90]\<close>. The cleanup of the
  target check deletes from the local array instead of the module-level object, so
  the array of the closed position is found again and extended.
\<close>

theorem reopened_position_keeps_old_entries:
  "(case run [Detect ''ETHUSDT'' (sweepAt 100 0 (Some 7)),
              TargetCheck (quote 102 20000),
              Detect ''ETHUSDT'' (sweepAt 90 1800000 (Some 8))] initial of
      Inl err \<Rightarrow> None
    | Inr s \<Rightarrow> entriesOf ''ETHUSDT'' s) = Some [90, 100]"
  by (simp add: sweep_simps)

text \<open>
  C2. The bottom price of an open position is to stay at or below the least entry
  price. A position is opened at 100 and the next sweep averages down at 90: the
  entries are \<open>[90, 100]\<close> and the bottom price is still 100.
\<close>

theorem bottom_above_lowest_entry:
  "(case run [Detect ''ETHUSDT'' (sweepAt 100 0 (Some 7)),
              Detect ''ETHUSDT'' (sweepAt 90 20000 (Some 8))] initial of
      Inl err \<Rightarrow> None
    | Inr s \<Rightarrow> Some (entriesOf ''ETHUSDT'' s, bottomPrices s ''ETHUSDT''))
   = Some (Some [90, 100], Some 100)"
  by (simp add: sweep_simps)

text \<open>
  C3. A target check with price data is to lower the bottom price to the least of
  its old value and the current price. A position is opened at 100 and a target
  check sees 95, below the sell price: the position stays open and its bottom
  price is still 100.
\<close>

theorem target_check_keeps_bottom:
  "(case run [Detect ''ETHUSDT'' (sweepAt 100 0 (Some 7)),
              TargetCheck (quote 95 20000)] initial of
      Inl err \<Rightarrow> None
    | Inr s \<Rightarrow> Some (entriesOf ''ETHUSDT'' s, bottomPrices s ''ETHUSDT''))
   = Some (Some [100], Some 100)"
  by (simp add: sweep_simps)

section \<open>What a sweep leaves alone\<close>

text \<open>
  \<^verbatim>\<open>calculateBTCChanges\<close> writes the two reference-asset variables only, and the log
  line of a sweep the indicator log only.
\<close>

lemma tracked_fields [simp]:
  fixes s :: state
  shows "lastNotificationTimes (snd (calculateBTCChanges response now s)) = lastNotificationTimes s"
    and "sellPrices (snd (calculateBTCChanges response now s)) = sellPrices s"
    and "bottomPrices (snd (calculateBTCChanges response now s)) = bottomPrices s"
    and "entryPrices (snd (calculateBTCChanges response now s)) = entryPrices s"
    and "arrays (snd (calculateBTCChanges response now s)) = arrays s"
    and "nextAddr (snd (calculateBTCChanges response now s)) = nextAddr s"
    and "rsiLog (snd (calculateBTCChanges response now s)) = rsiLog s"
    and "buyLog (snd (calculateBTCChanges response now s)) = buyLog s"
    and "sent (snd (calculateBTCChanges response now s)) = sent s"
    and "edited (snd (calculateBTCChanges response now s)) = edited s"
  by (simp_all add: calculateBTCChanges_def fetchBTCPrice_def Let_def split: option.splits)

lemma logged_fields [simp]:
  shows "lastNotificationTimes (logRSIAndPrice symbol a b c s) = lastNotificationTimes s"
    and "sellPrices (logRSIAndPrice symbol a b c s) = sellPrices s"
    and "bottomPrices (logRSIAndPrice symbol a b c s) = bottomPrices s"
    and "entryPrices (logRSIAndPrice symbol a b c s) = entryPrices s"
    and "arrays (logRSIAndPrice symbol a b c s) = arrays s"
    and "sent (logRSIAndPrice symbol a b c s) = sent s"
  by (simp_all add: logRSIAndPrice_def)

lemma notifiedRecently_logged [simp]:
  "notifiedRecently symbol t (logRSIAndPrice symbol' a b c (snd (calculateBTCChanges r n s)))
   = notifiedRecently symbol t s"
  by (simp add: notifiedRecently_def logRSIAndPrice_def)







section \<open>The cooldown\<close>

text \<open>
  The cut of \<^verbatim>\<open>diff\<close> towards zero does not matter for the test against a whole
  number of minutes.
\<close>

lemma diff_minutes_less: "0 < n \<Longrightarrow> (diff_minutes a b < n) = (a - b < n * minute)"
  unfolding diff_minutes_def minute_def by (cases "a - b < 0") auto

lemma raise_has_price:
  assumes "null_gt (calculateRSI p1) RSI_THRESHOLD_1m"
  shows "\<exists>cp. lastPrice p1 = Some cp"
  using assms
  by (cases "p1 = []") (auto simp: null_gt_def calculateRSI_def RSI_THRESHOLD_1m_def lastPrice_def RSI_PERIOD_def)

lemma raiseCondition_prices:
  assumes "raiseCondition env"
  obtains p15 p1 cp where "prices15m env = Some p15" "prices1m env = Some p1"
    "null_lt (calculateRSI p15) RSI_THRESHOLD_15m" "null_gt (calculateRSI p1) RSI_THRESHOLD_1m"
    "lastPrice p1 = Some cp"
  using assms raise_has_price
  by (auto simp: raiseCondition_def split: option.splits)

text \<open>The two ways through \<^verbatim>\<open>handleRSI\<close> once both price series are there.\<close>

lemma handleRSI_idle:
  assumes "map_of (sellPrices s) symbol = None"
    and "prices15m env = Some p15" and "prices1m env = Some p1"
  shows "handleRSI symbol env s =
     Inr (let s1 = logRSIAndPrice symbol (calculateRSI p15) (calculateRSI p1) (lastPrice p1)
                 (snd (calculateBTCChanges (btcResponse env) (btcClock env) s))
          in if null_lt (calculateRSI p15) RSI_THRESHOLD_15m \<and> null_gt (calculateRSI p1) RSI_THRESHOLD_1m
             then raiseSignal symbol env (lastPrice p1) s1 else s1)"
  using assms
  by (simp add: handleRSI_def case_prod_beta Let_def logRSIAndPrice_def)

lemma handleRSI_active:
  assumes "map_of (sellPrices s) symbol = Some sig"
    and "prices15m env = Some p15" and "prices1m env = Some p1"
  shows "handleRSI symbol env s =
     averageDown symbol sig (lastPrice p1)
       (logRSIAndPrice symbol (calculateRSI p15) (calculateRSI p1) (lastPrice p1)
                 (snd (calculateBTCChanges (btcResponse env) (btcClock env) s)))"
  using assms
  by (simp add: handleRSI_def case_prod_beta Let_def logRSIAndPrice_def)

lemma raiseSignal_recent:
  "notifiedRecently symbol (clock env) s \<Longrightarrow> raiseSignal symbol env cp s = s"
  by (simp add: raiseSignal_def)

lemma raiseSignal_opens:
  assumes "\<not> notifiedRecently symbol (clock env) s"
  shows "\<exists>a old. 
     sent (raiseSignal symbol env (Some cp) s) = sent s @ [BuySignal symbol (cp # old) (toFixed 8 (cp * (1011 / 1000)))] \<and>
     lastNotificationTimes (raiseSignal symbol env (Some cp) s) = (lastNotificationTimes s)(symbol \<mapsto> clock env) \<and>
     map_of (sellPrices (raiseSignal symbol env (Some cp) s)) symbol
       = Some \<lparr> entryPricesRef = a, sellPrice = toFixed 8 (cp * (1011 / 1000)), messageId = sendResult env, buyTime = clock env \<rparr> \<and>
     arrays (raiseSignal symbol env (Some cp) s) a = cp # old \<and>
     entryPrices (raiseSignal symbol env (Some cp) s) symbol = Some a \<and>
     bottomPrices (raiseSignal symbol env (Some cp) s) symbol = Some cp"
  using assms
  by (cases "entryPrices s symbol")
     (simp_all add: raiseSignal_def prepareSignal_def entryArray_def unshift_def sendTelegramMessage_def trackSignal_def Let_def update_conv')

lemma averageDown_keeps:
  assumes "averageDown symbol sig cp s = Inr s'"
  shows "sent s' = sent s \<and> sellPrices s' = sellPrices s \<and>
    lastNotificationTimes s' = lastNotificationTimes s \<and> bottomPrices s' = bottomPrices s"
  using assms
  by (auto simp: averageDown_def unshift_def editTelegramMessage_def Let_def
      split: option.splits if_splits)

lemma handleRSI_recent_no_signal:
  assumes "notifiedRecently symbol (clock env) s" and "handleRSI symbol env s = Inr s'"
  shows "sent s' = sent s"
proof (cases "prices15m env = None \<or> prices1m env = None")
  case True
  then have "handleRSI symbol env s
      = Inr (snd (calculateBTCChanges (btcResponse env) (btcClock env) s))"
    by (auto simp: handleRSI_def case_prod_beta split: option.splits)
  with assms(2) show ?thesis by auto
next
  case False
  then obtain p15 p1 where p: "prices15m env = Some p15" "prices1m env = Some p1"
    by auto
  show ?thesis
  proof (cases "map_of (sellPrices s) symbol")
    case None
    show ?thesis
      using assms handleRSI_idle [OF None p]
      by (auto simp: Let_def raiseSignal_recent split: if_splits)
  next
    case (Some sig)
    show ?thesis
      using assms(2) averageDown_keeps handleRSI_active [OF Some p]
      by fastforce
  qed
qed

lemma handleRSI_opens:
  assumes "map_of (sellPrices s) symbol = None"
    and "raiseCondition env" and "\<not> notifiedRecently symbol (clock env) s"
  obtains p1 cp where "prices1m env = Some p1" "lastPrice p1 = Some cp"
    "\<exists>p15. handleRSI symbol env s =
       Inr (raiseSignal symbol env (Some cp)
             (logRSIAndPrice symbol (calculateRSI p15) (calculateRSI p1) (Some cp)
                (snd (calculateBTCChanges (btcResponse env) (btcClock env) s))))"
proof -
  from assms(2) obtain p15 p1 cp where p: "prices15m env = Some p15" "prices1m env = Some p1"
    "null_lt (calculateRSI p15) RSI_THRESHOLD_15m" "null_gt (calculateRSI p1) RSI_THRESHOLD_1m"
    "lastPrice p1 = Some cp"
    by (rule raiseCondition_prices)
  have "handleRSI symbol env s =
       Inr (raiseSignal symbol env (Some cp)
             (logRSIAndPrice symbol (calculateRSI p15) (calculateRSI p1) (Some cp)
                (snd (calculateBTCChanges (btcResponse env) (btcClock env) s))))"
    using handleRSI_idle [OF assms(1) p(1,2)] p(3,4,5) by (simp add: Let_def)
  with p(2,5) that show thesis by blast
qed

text \<open>
  C6. A symbol has no open position, a sweep meets the raise condition and the
  cooldown lets it pass: it sends one new signal. Whatever happens then, as long as
  no later signal of the symbol is recorded: a second sweep that finds no open
  position and meets the raise condition sends nothing when it comes less than 30
  minutes after the first, and sends a second signal when it comes 30 minutes
  after the first or later.
\<close>

theorem cooldown_one_signal:
  assumes idle1: "map_of (sellPrices s) symbol = None"
    and raise1: "raiseCondition env1"
    and permitted: "\<not> notifiedRecently symbol (clock env1) s"
    and first: "handleRSI symbol env1 s = Inr s1"
    and between: "lastNotificationTimes s2 symbol = lastNotificationTimes s1 symbol"
    and idle2: "map_of (sellPrices s2) symbol = None"
    and raise2: "raiseCondition env2"
    and second: "handleRSI symbol env2 s2 = Inr s3"
  shows "(\<exists>es sp. sent s1 = sent s @ [BuySignal symbol es sp]) \<and>
         (clock env2 - clock env1 < 30 * minute \<longrightarrow> sent s3 = sent s2) \<and>
         (30 * minute \<le> clock env2 - clock env1 \<longrightarrow>
            (\<exists>es sp. sent s3 = sent s2 @ [BuySignal symbol es sp]))"
proof -
  obtain p1 cp p15 where o1: "handleRSI symbol env1 s =
       Inr (raiseSignal symbol env1 (Some cp)
             (logRSIAndPrice symbol (calculateRSI p15) (calculateRSI p1) (Some cp)
                (snd (calculateBTCChanges (btcResponse env1) (btcClock env1) s))))"
    using handleRSI_opens [OF idle1 raise1 permitted] by metis
  let ?l = "logRSIAndPrice symbol (calculateRSI p15) (calculateRSI p1) (Some cp)
                (snd (calculateBTCChanges (btcResponse env1) (btcClock env1) s))"
  have nr: "\<not> notifiedRecently symbol (clock env1) ?l"
    using permitted by simp
  have s1: "s1 = raiseSignal symbol env1 (Some cp) ?l"
    using o1 first by simp
  from raiseSignal_opens [OF nr, of cp] obtain old where
    r: "sent s1 = sent ?l @ [BuySignal symbol (cp # old) (toFixed 8 (cp * (1011 / 1000)))]"
       "lastNotificationTimes s1 = (lastNotificationTimes ?l)(symbol \<mapsto> clock env1)"
    unfolding s1 by blast
  have one: "\<exists>es sp. sent s1 = sent s @ [BuySignal symbol es sp]"
    using r(1) by simp
  have stamp: "lastNotificationTimes s2 symbol = Some (clock env1)"
    using between r(2) by simp
  have rec: "notifiedRecently symbol (clock env2) s2 = (clock env2 - clock env1 < 30 * minute)"
    using stamp diff_minutes_less [of 30 "clock env2" "clock env1"]
    by (simp add: notifiedRecently_def)
  have within: "sent s3 = sent s2" if "clock env2 - clock env1 < 30 * minute"
    using that rec handleRSI_recent_no_signal [OF _ second] by simp
  have after: "\<exists>es sp. sent s3 = sent s2 @ [BuySignal symbol es sp]"
    if "30 * minute \<le> clock env2 - clock env1"
  proof -
    have n2: "\<not> notifiedRecently symbol (clock env2) s2"
      using that rec by simp
    obtain q1 cq q15 where o2: "handleRSI symbol env2 s2 =
       Inr (raiseSignal symbol env2 (Some cq)
             (logRSIAndPrice symbol (calculateRSI q15) (calculateRSI q1) (Some cq)
                (snd (calculateBTCChanges (btcResponse env2) (btcClock env2) s2))))"
      using handleRSI_opens [OF idle2 raise2 n2] by metis
    let ?m = "logRSIAndPrice symbol (calculateRSI q15) (calculateRSI q1) (Some cq)
                (snd (calculateBTCChanges (btcResponse env2) (btcClock env2) s2))"
    have "\<not> notifiedRecently symbol (clock env2) ?m"
      using n2 by simp
    from raiseSignal_opens [OF this, of cq] o2 second show ?thesis
      by auto
  qed
  from one within after show ?thesis by blast
qed

theorem cooldown_one_signal_witness:
  "map_of (sellPrices initial) ''ETHUSDT'' = None \<and>
   raiseCondition (sweepAt 100 0 None) \<and>
   map_of (sellPrices afterClose) ''ETHUSDT'' = None \<and>
   raiseCondition (sweepAt 90 600000 (Some 8)) \<and>
   (\<exists>es sp. sent afterOpen = sent initial @ [BuySignal ''ETHUSDT'' es sp]) \<and>
   (\<exists>s3. handleRSI ''ETHUSDT'' (sweepAt 90 600000 (Some 8)) afterClose = Inr s3 \<and>
      sent s3 = sent afterClose) \<and>
   (\<exists>s3 es sp. handleRSI ''ETHUSDT'' (sweepAt 90 1800000 (Some 8)) afterClose = Inr s3 \<and>
      sent s3 = sent afterClose @ [BuySignal ''ETHUSDT'' es sp])"
proof -
  have idle1: "map_of (sellPrices initial) ''ETHUSDT'' = None"
    by (simp add: initial_def)
  have raise1: "raiseCondition (sweepAt 100 0 None)"
    by (simp add: scene_simps)
  have permitted: "\<not> notifiedRecently ''ETHUSDT'' (clock (sweepAt 100 0 None)) initial"
    by (simp add: scene_simps)
  have first: "handleRSI ''ETHUSDT'' (sweepAt 100 0 None) initial = Inr afterOpen"
    by (simp add: scene_simps)
  have between:
    "lastNotificationTimes afterClose ''ETHUSDT'' = lastNotificationTimes afterOpen ''ETHUSDT''"
    by (simp add: scene_simps)
  have idle2: "map_of (sellPrices afterClose) ''ETHUSDT'' = None"
    by (simp add: scene_simps)
  have raise2: "raiseCondition (sweepAt 90 t (Some 8))" for t
    by (simp add: scene_simps)
  have early: "handleRSI ''ETHUSDT'' (sweepAt 90 600000 (Some 8)) afterClose
      = Inr (projr (handleRSI ''ETHUSDT'' (sweepAt 90 600000 (Some 8)) afterClose))"
    by (simp add: scene_simps)
  have late: "handleRSI ''ETHUSDT'' (sweepAt 90 1800000 (Some 8)) afterClose
      = Inr (projr (handleRSI ''ETHUSDT'' (sweepAt 90 1800000 (Some 8)) afterClose))"
    by (simp add: scene_simps)
  have t1: "clock (sweepAt 90 600000 (Some 8)) - clock (sweepAt 100 0 None) < 30 * minute"
    by (simp add: sweepAt_def minute_def)
  have t2: "30 * minute \<le> clock (sweepAt 90 1800000 (Some 8)) - clock (sweepAt 100 0 None)"
    by (simp add: sweepAt_def minute_def)
  from cooldown_one_signal [OF idle1 raise1 permitted first between idle2 raise2 early] t1
    cooldown_one_signal [OF idle1 raise1 permitted first between idle2 raise2 late] t2
    idle1 raise1 idle2 raise2 early late
  show ?thesis
    by metis
qed

text \<open>
  C10. The state \<open>sd\<close> is the one that the sweep has reached when it hands the
  message to the channel: the state after the reference fetch and the log line,
  taken through the statements up to the send. The timestamp of the symbol, which
  was not there when the sweep began, is set in \<open>sd\<close>, where nothing is sent yet
  and no position is open; the result of the sweep is \<open>sd\<close> taken through the
  send and the two assignments after it. When the send fails and returns no
  handle, the timestamp stays, the position is open without a handle, and a sweep
  of the symbol less than 30 minutes later sends no new signal, whether or not the
  position is still open.
\<close>

theorem failed_send_starts_cooldown:
  assumes idle: "map_of (sellPrices s) symbol = None"
    and raise: "raiseCondition env"
    and permitted: "\<not> notifiedRecently symbol (clock env) s"
    and failed: "sendResult env = None"
    and series: "prices15m env = Some p15" "prices1m env = Some p1" "lastPrice p1 = Some cp"
    and dispatch: "prepareSignal symbol cp (clock env)
        (logRSIAndPrice symbol (calculateRSI p15) (calculateRSI p1) (Some cp)
           (snd (calculateBTCChanges (btcResponse env) (btcClock env) s)))
      = ((msg, sp, a), sd)"
    and first: "handleRSI symbol env s = Inr s1"
    and later: "lastNotificationTimes s2 symbol = lastNotificationTimes s1 symbol"
    and within: "clock env2 - clock env < 30 * minute"
    and second: "handleRSI symbol env2 s2 = Inr s3"
  shows "lastNotificationTimes s symbol \<noteq> Some (clock env) \<and>
         lastNotificationTimes sd symbol = Some (clock env) \<and>
         sent sd = sent s \<and>
         map_of (sellPrices sd) symbol = None \<and>
         s1 = trackSignal symbol cp sp a (clock env) None
                (snd (sendTelegramMessage msg None sd)) \<and>
         sent s1 = sent s @ [msg] \<and>
         lastNotificationTimes s1 symbol = Some (clock env) \<and>
         (\<exists>sig. map_of (sellPrices s1) symbol = Some sig \<and> messageId sig = None) \<and>
         sent s3 = sent s2"
proof -
  let ?l = "logRSIAndPrice symbol (calculateRSI p15) (calculateRSI p1) (Some cp)
                (snd (calculateBTCChanges (btcResponse env) (btcClock env) s))"
  have cond: "null_lt (calculateRSI p15) RSI_THRESHOLD_15m \<and>
      null_gt (calculateRSI p1) RSI_THRESHOLD_1m"
    using raise series(1,2) by (simp add: raiseCondition_def)
  have o: "handleRSI symbol env s = Inr (raiseSignal symbol env (Some cp) ?l)"
    using handleRSI_idle [OF idle series(1,2)] cond series(3) by (simp add: Let_def)
  have nr: "\<not> notifiedRecently symbol (clock env) ?l"
    using permitted by simp
  have s1: "s1 = raiseSignal symbol env (Some cp) ?l"
    using o first by simp
  have fresh: "lastNotificationTimes s symbol \<noteq> Some (clock env)"
    using permitted by (auto simp: notifiedRecently_def diff_minutes_def minute_def)
  have stamp_sd: "lastNotificationTimes sd symbol = Some (clock env)"
    and sent_sd: "sent sd = sent s"
    and idle_sd: "map_of (sellPrices sd) symbol = None"
    using dispatch idle
    by (auto simp: prepareSignal_def entryArray_def unshift_def Let_def split: option.splits)
  have track: "s1 = trackSignal symbol cp sp a (clock env) None
      (snd (sendTelegramMessage msg None sd))"
    using nr dispatch failed unfolding s1 by (simp add: raiseSignal_def sendTelegramMessage_def)
  have sent_s1: "sent s1 = sent s @ [msg]"
    unfolding track using sent_sd by (simp add: trackSignal_def sendTelegramMessage_def)
  from raiseSignal_opens [OF nr, of cp] failed
  have stamp: "lastNotificationTimes s1 symbol = Some (clock env)"
    and sig: "\<exists>sig. map_of (sellPrices s1) symbol = Some sig \<and> messageId sig = None"
    unfolding s1 by auto
  have "notifiedRecently symbol (clock env2) s2"
    using later stamp within diff_minutes_less [of 30 "clock env2" "clock env"]
    by (simp add: notifiedRecently_def)
  then have "sent s3 = sent s2"
    using second by (rule handleRSI_recent_no_signal)
  with fresh stamp_sd sent_sd idle_sd track sent_s1 stamp sig show ?thesis
    by blast
qed

theorem failed_send_starts_cooldown_witness:
  "sendResult (sweepAt 100 0 None) = None \<and>
   raiseCondition (sweepAt 90 600000 (Some 8)) \<and>
   map_of (sellPrices afterClose) ''ETHUSDT'' = None \<and>
   lastNotificationTimes initial ''ETHUSDT'' = None \<and>
   lastNotificationTimes atDispatch ''ETHUSDT'' = Some 0 \<and>
   sent atDispatch = [] \<and>
   sent afterOpen = [BuySignal ''ETHUSDT'' [100] (1011 / 10)] \<and>
   lastNotificationTimes afterOpen ''ETHUSDT'' = Some 0 \<and>
   (\<exists>s3. handleRSI ''ETHUSDT'' (sweepAt 90 600000 (Some 8)) afterClose = Inr s3 \<and>
      sent s3 = sent afterClose)"
proof -
  let ?l = "logRSIAndPrice ''ETHUSDT'' (calculateRSI falling) (calculateRSI (flat 100)) (Some 100)
              (snd (calculateBTCChanges (btcResponse (sweepAt 100 0 None))
                 (btcClock (sweepAt 100 0 None)) initial))"
  let ?pr = "prepareSignal ''ETHUSDT'' 100 (clock (sweepAt 100 0 None)) ?l"
  have idle: "map_of (sellPrices initial) ''ETHUSDT'' = None"
    by (simp add: initial_def)
  have raise: "raiseCondition (sweepAt p t mid)" for p t mid
    by (simp add: scene_simps)
  have permitted: "\<not> notifiedRecently ''ETHUSDT'' (clock (sweepAt 100 0 None)) initial"
    by (simp add: scene_simps)
  have failed: "sendResult (sweepAt 100 0 None) = None"
    by (simp add: sweepAt_def)
  have series: "prices15m (sweepAt 100 0 None) = Some falling"
    "prices1m (sweepAt 100 0 None) = Some (flat 100)" "lastPrice (flat 100) = Some 100"
    by (simp_all add: sweepAt_def last_flat)
  have dispatch: "?pr = ((fst (fst ?pr), fst (snd (fst ?pr)), snd (snd (fst ?pr))), snd ?pr)"
    by simp
  have sd: "snd ?pr = atDispatch"
    by (simp add: atDispatch_def sweepAt_def)
  have msg: "fst (fst ?pr) = BuySignal ''ETHUSDT'' [100] (1011 / 10)"
    by (simp add: scene_simps)
  have first: "handleRSI ''ETHUSDT'' (sweepAt 100 0 None) initial = Inr afterOpen"
    by (simp add: scene_simps)
  have later:
    "lastNotificationTimes afterClose ''ETHUSDT'' = lastNotificationTimes afterOpen ''ETHUSDT''"
    by (simp add: scene_simps)
  have within: "clock (sweepAt 90 600000 (Some 8)) - clock (sweepAt 100 0 None) < 30 * minute"
    by (simp add: sweepAt_def minute_def)
  have second: "handleRSI ''ETHUSDT'' (sweepAt 90 600000 (Some 8)) afterClose
      = Inr (projr (handleRSI ''ETHUSDT'' (sweepAt 90 600000 (Some 8)) afterClose))"
    by (simp add: scene_simps)
  have idle2: "map_of (sellPrices afterClose) ''ETHUSDT'' = None"
    by (simp add: scene_simps)
  have before: "lastNotificationTimes initial ''ETHUSDT'' = None"
    by (simp add: initial_def)
  from failed_send_starts_cooldown
    [OF idle raise permitted failed series dispatch first later within second]
  have "lastNotificationTimes (snd ?pr) ''ETHUSDT'' = Some (clock (sweepAt 100 0 None))"
    and "sent (snd ?pr) = sent initial"
    and "sent afterOpen = sent initial @ [fst (fst ?pr)]"
    and "lastNotificationTimes afterOpen ''ETHUSDT'' = Some (clock (sweepAt 100 0 None))"
    and "sent (projr (handleRSI ''ETHUSDT'' (sweepAt 90 600000 (Some 8)) afterClose))
      = sent afterClose"
    by blast+
  then have "lastNotificationTimes atDispatch ''ETHUSDT'' = Some 0"
    and "sent atDispatch = []"
    and "sent afterOpen = [BuySignal ''ETHUSDT'' [100] (1011 / 10)]"
    and "lastNotificationTimes afterOpen ''ETHUSDT'' = Some 0"
    and "sent (projr (handleRSI ''ETHUSDT'' (sweepAt 90 600000 (Some 8)) afterClose))
      = sent afterClose"
    unfolding sd msg by (simp_all add: sweepAt_def initial_def)
  with failed raise idle2 second before show ?thesis
    by metis
qed

section \<open>The sell target of an open position\<close>

lemma raiseSignal_other:
  assumes "symbol' \<noteq> symbol"
  shows "map_of (sellPrices (raiseSignal symbol' env cp s)) symbol = map_of (sellPrices s) symbol"
  using assms
  by (cases "entryPrices s symbol'")
     (auto simp: raiseSignal_def prepareSignal_def entryArray_def unshift_def
        sendTelegramMessage_def trackSignal_def Let_def update_conv' split: option.splits)

lemma handleRSI_keeps_signal:
  assumes "map_of (sellPrices s) symbol = Some sig" and "handleRSI symbol' env s = Inr s'"
  shows "map_of (sellPrices s') symbol = Some sig"
proof (cases "prices15m env = None \<or> prices1m env = None")
  case True
  then have "handleRSI symbol' env s
      = Inr (snd (calculateBTCChanges (btcResponse env) (btcClock env) s))"
    by (auto simp: handleRSI_def case_prod_beta split: option.splits)
  with assms show ?thesis by auto
next
  case False
  then obtain p15 p1 where p: "prices15m env = Some p15" "prices1m env = Some p1"
    by auto
  show ?thesis
  proof (cases "map_of (sellPrices s) symbol'")
    case None
    then have "symbol' \<noteq> symbol"
      using assms(1) by auto
    then show ?thesis
      using assms handleRSI_idle [OF None p]
      by (auto simp: Let_def raiseSignal_other split: if_splits)
  next
    case (Some sig')
    show ?thesis
      using assms averageDown_keeps handleRSI_active [OF Some p]
      by fastforce
  qed
qed

lemma checkTarget_keeps_or_closes:
  "map_of (sellPrices (checkTarget symbol' prices now s)) symbol = map_of (sellPrices s) symbol \<or>
   map_of (sellPrices (checkTarget symbol' prices now s)) symbol = None"
  by (auto simp: checkTarget_def logBuySignal_def editTelegramMessage_def Let_def delete_conv'
      split: option.splits)

lemma target_loop_keeps_or_closes:
  "map_of (sellPrices (foldl (\<lambda>s' k. checkTarget k (fst (fetched k)) (snd (fetched k)) s') s ks)) symbol
     = map_of (sellPrices s) symbol \<or>
   map_of (sellPrices (foldl (\<lambda>s' k. checkTarget k (fst (fetched k)) (snd (fetched k)) s') s ks)) symbol
     = None"
proof (induction ks arbitrary: s)
  case Nil
  show ?case by simp
next
  case (Cons k ks)
  show ?case
    using Cons.IH [of "checkTarget k (fst (fetched k)) (snd (fetched k)) s"]
      checkTarget_keeps_or_closes [of k "fst (fetched k)" "snd (fetched k)" s symbol]
    by auto
qed

lemma checkTargetAchieved_keeps_or_closes:
  "map_of (sellPrices (checkTargetAchieved fetched s)) symbol = map_of (sellPrices s) symbol \<or>
   map_of (sellPrices (checkTargetAchieved fetched s)) symbol = None"
  unfolding checkTargetAchieved_def by (rule target_loop_keeps_or_closes)

lemma stays_open_now: "stays_open symbol evs s \<Longrightarrow> map_of (sellPrices s) symbol \<noteq> None"
  by (cases evs) simp_all

lemma stays_open_step:
  assumes "stays_open symbol (e # evs) s"
  obtains s1 where "step e s = Inr s1" "stays_open symbol evs s1"
  using assms by (cases "step e s") simp_all

lemma open_signal_unchanged:
  assumes "map_of (sellPrices s) symbol = Some sig" and "stays_open symbol evs s"
  shows "\<exists>s'. run evs s = Inr s' \<and> map_of (sellPrices s') symbol = Some sig"
  using assms
proof (induction evs arbitrary: s)
  case Nil
  then show ?case by simp
next
  case (Cons e evs)
  from Cons.prems(2) obtain s1 where s1: "step e s = Inr s1" "stays_open symbol evs s1"
    by (rule stays_open_step)
  have "map_of (sellPrices s1) symbol = Some sig"
  proof (cases e)
    case (Detect symbol' env)
    with s1(1) have "handleRSI symbol' env s = Inr s1"
      by simp
    with Cons.prems(1) show ?thesis
      by (rule handleRSI_keeps_signal)
  next
    case (TargetCheck fetched)
    with s1(1) have "s1 = checkTargetAchieved fetched s"
      by simp
    with Cons.prems(1) checkTargetAchieved_keeps_or_closes [of fetched s symbol]
      stays_open_now [OF s1(2)]
    show ?thesis
      by auto
  qed
  from Cons.IH [OF this s1(2)] s1(1) show ?case by simp
qed

text \<open>
  C7. A position opened at the price \<open>cp\<close> has the sell target
  \<open>cp \<times> 1.011\<close>, to eight decimals. Along every run of detection sweeps (of this
  or another symbol) and target checks during which the position stays open, the
  record of the position, and with it the sell target, is the one written at the
  opening, however many entries the sweeps prepend.
\<close>

theorem sell_target_pinned:
  assumes idle: "map_of (sellPrices s) symbol = None"
    and raise: "raiseCondition env"
    and permitted: "\<not> notifiedRecently symbol (clock env) s"
    and price: "prices1m env = Some p1" "lastPrice p1 = Some cp"
    and start: "handleRSI symbol env s = Inr s1"
    and lifetime: "stays_open symbol evs s1"
  shows "\<exists>s' sig. run evs s1 = Inr s' \<and> map_of (sellPrices s') symbol = Some sig \<and>
           sellPrice sig = toFixed 8 (cp * (1011 / 1000))"
proof -
  obtain p15 where o: "handleRSI symbol env s =
       Inr (raiseSignal symbol env (Some cp)
             (logRSIAndPrice symbol (calculateRSI p15) (calculateRSI p1) (Some cp)
                (snd (calculateBTCChanges (btcResponse env) (btcClock env) s))))"
    using handleRSI_opens [OF idle raise permitted] price by (metis option.inject)
  let ?l = "logRSIAndPrice symbol (calculateRSI p15) (calculateRSI p1) (Some cp)
                (snd (calculateBTCChanges (btcResponse env) (btcClock env) s))"
  have "\<not> notifiedRecently symbol (clock env) ?l"
    using permitted by simp
  from raiseSignal_opens [OF this, of cp] o start
  obtain sig where sig: "map_of (sellPrices s1) symbol = Some sig"
    "sellPrice sig = toFixed 8 (cp * (1011 / 1000))"
    by auto
  from open_signal_unchanged [OF sig(1) lifetime] sig(2) show ?thesis
    by blast
qed

theorem sell_target_pinned_witness:
  "stays_open ''ETHUSDT'' dips afterOpen \<and>
   (\<exists>s' sig. run dips afterOpen = Inr s' \<and>
      map_of (sellPrices s') ''ETHUSDT'' = Some sig \<and> sellPrice sig = 1011 / 10 \<and>
      entriesOf ''ETHUSDT'' s' = Some [80, 90, 100])"
proof -
  have idle: "map_of (sellPrices initial) ''ETHUSDT'' = None"
    by (simp add: initial_def)
  have raise: "raiseCondition (sweepAt 100 0 None)"
    by (simp add: scene_simps)
  have permitted: "\<not> notifiedRecently ''ETHUSDT'' (clock (sweepAt 100 0 None)) initial"
    by (simp add: scene_simps)
  have price: "prices1m (sweepAt 100 0 None) = Some (flat 100)" "lastPrice (flat 100) = Some 100"
    by (simp_all add: sweepAt_def last_flat)
  have start: "handleRSI ''ETHUSDT'' (sweepAt 100 0 None) initial = Inr afterOpen"
    by (simp add: scene_simps)
  have lifetime: "stays_open ''ETHUSDT'' dips afterOpen"
    by (simp add: scene_simps dips_def)
  have entries: "\<exists>s'. run dips afterOpen = Inr s' \<and> entriesOf ''ETHUSDT'' s' = Some [80, 90, 100]"
    by (simp add: scene_simps dips_def)
  have target: "toFixed 8 (100 * (1011 / 1000)) = 1011 / 10"
    by (simp add: toFixed_def)
  from sell_target_pinned [OF idle raise permitted price start lifetime] entries lifetime target
  show ?thesis
    by auto
qed

section \<open>The 30-minute comparator of the reference asset\<close>

lemma sorted_dropWhile_map:
  "sorted (map f xs) \<Longrightarrow> sorted (map f (dropWhile P xs))"
  by (induction xs) auto

lemma dropWhile_sorted_bound:
  fixes f :: "'a \<Rightarrow> int"
  assumes "sorted (map f xs)"
  shows "\<forall>x\<in>set (dropWhile (\<lambda>e. f e < t) xs). t \<le> f x"
  using assms by (induction xs) auto

lemma find_sorted_oldest:
  fixes f :: "'a \<Rightarrow> int"
  assumes "sorted (map f xs)" and "List.find (\<lambda>e. f e \<le> t) xs = Some x"
  shows "x \<in> set xs \<and> f x \<le> t \<and> (\<forall>e\<in>set xs. f x \<le> f e)"
proof (cases xs)
  case Nil
  with assms(2) show ?thesis by simp
next
  case (Cons y ys)
  show ?thesis
  proof (cases "f y \<le> t")
    case True
    with assms Cons show ?thesis by auto
  next
    case False
    with assms(1) Cons have "\<forall>e\<in>set ys. \<not> f e \<le> t"
      by fastforce
    then have "List.find (\<lambda>e. f e \<le> t) ys = None"
      by (simp add: find_None_iff)
    with assms(2) Cons False show ?thesis by simp
  qed
qed

lemma find_sorted_head:
  fixes f :: "'a \<Rightarrow> int"
  assumes "sorted (map f xs)" and "\<exists>e\<in>set xs. f e \<le> t"
  shows "List.find (\<lambda>e. f e \<le> t) xs = Some (hd xs)"
proof (cases xs)
  case Nil
  with assms(2) show ?thesis by simp
next
  case (Cons y ys)
  with assms have "f y \<le> t"
    by fastforce
  with Cons show ?thesis by simp
qed

lemma fetched_history:
  "btcPriceHistory (snd (calculateBTCChanges (Some p) now s))
     = dropWhile (\<lambda>e. timestamp e < now - 31 * minute)
         (btcPriceHistory s @ [\<lparr> price = p, timestamp = now \<rparr>])"
  by (simp add: calculateBTCChanges_def fetchBTCPrice_def Let_def)

lemma fetched_change30m:
  "p \<noteq> 0 \<Longrightarrow> change30m (fst (calculateBTCChanges (Some p) now s))
     = map_option (\<lambda>old. percentChange p (price old))
         (oldPrice now (btcPriceHistory (snd (calculateBTCChanges (Some p) now s))))"
  by (simp add: calculateBTCChanges_def fetchBTCPrice_def Let_def split: option.splits)

text \<open>
  C8, as stated: with samples aged 5, 20 and 35 minutes in the buffer, the sample
  of 35 minutes is the comparator. The scan alone would pick it, but
  \<^verbatim>\<open>calculateBTCChanges\<close> first calls \<^verbatim>\<open>fetchBTCPrice\<close>, which shifts every sample
  of more than 31 minutes out of the buffer: the sample is gone when the scan
  runs, and the 30-minute change is unavailable.
\<close>

theorem old_sample_evicted_before_scan:
  "map timestamp samples_35_20_5 = [35 * minute - 35 * minute, 35 * minute - 20 * minute, 35 * minute - 5 * minute] \<and>
   oldPrice (35 * minute) samples_35_20_5 = Some \<lparr> price = 100, timestamp = 0 \<rparr> \<and>
   change30m (fst (calculateBTCChanges (Some 110) (35 * minute)
                     (initial\<lparr> btcPriceHistory := samples_35_20_5 \<rparr>))) = None \<and>
   map timestamp (btcPriceHistory (snd (calculateBTCChanges (Some 110) (35 * minute)
                     (initial\<lparr> btcPriceHistory := samples_35_20_5 \<rparr>))))
     = [15 * minute, 30 * minute, 35 * minute]"
  by (simp add: samples_35_20_5_def calculateBTCChanges_def fetchBTCPrice_def oldPrice_def
      initial_def minute_def Let_def)

text \<open>
  C8, amended. The buffer is oldest-first and the price fetched is not zero. After
  the fetch no retained sample is older than 31 minutes. When a retained sample is
  at least 30 minutes old, the comparator is found: it is the first sample of the
  retained buffer, the oldest one, and the 30-minute change is computed against
  its price. When no retained sample is that old, no comparator is found and the
  change is unavailable.
\<close>

theorem comparator_is_oldest_retained:
  assumes ordered: "sorted (map timestamp (btcPriceHistory s))"
    and past: "\<forall>e\<in>set (btcPriceHistory s). timestamp e \<le> now"
    and nonzero: "p \<noteq> 0"
    and call: "calculateBTCChanges (Some p) now s = (r, s')"
  shows "(\<forall>e\<in>set (btcPriceHistory s'). now - 31 * minute \<le> timestamp e) \<and>
         change30m r = map_option (\<lambda>old. percentChange p (price old))
                         (oldPrice now (btcPriceHistory s')) \<and>
         (\<forall>old. oldPrice now (btcPriceHistory s') = Some old \<longrightarrow>
            old \<in> set (btcPriceHistory s') \<and> timestamp old \<le> now - 30 * minute \<and>
            (\<forall>e\<in>set (btcPriceHistory s'). timestamp old \<le> timestamp e)) \<and>
         ((\<exists>e\<in>set (btcPriceHistory s'). timestamp e \<le> now - 30 * minute) \<longrightarrow>
            oldPrice now (btcPriceHistory s') = Some (hd (btcPriceHistory s')) \<and>
            change30m r = Some (percentChange p (price (hd (btcPriceHistory s'))))) \<and>
         ((\<forall>e\<in>set (btcPriceHistory s'). now - 30 * minute < timestamp e) \<longrightarrow>
            oldPrice now (btcPriceHistory s') = None \<and> change30m r = None)"
proof -
  let ?pushed = "btcPriceHistory s @ [\<lparr> price = p, timestamp = now \<rparr>]"
  have h: "btcPriceHistory s' = dropWhile (\<lambda>e. timestamp e < now - 31 * minute) ?pushed"
    using fetched_history [of p now s] call by simp
  have c: "change30m r = map_option (\<lambda>old. percentChange p (price old))
                         (oldPrice now (btcPriceHistory s'))"
    using fetched_change30m [OF nonzero, of now s] call by simp
  have sp: "sorted (map timestamp ?pushed)"
    using ordered past by (simp add: sorted_append)
  have retained: "\<forall>e\<in>set (btcPriceHistory s'). now - 31 * minute \<le> timestamp e"
    unfolding h using sp by (rule dropWhile_sorted_bound)
  have sh: "sorted (map timestamp (btcPriceHistory s'))"
    unfolding h using sp by (rule sorted_dropWhile_map)
  have oldest: "\<forall>old. oldPrice now (btcPriceHistory s') = Some old \<longrightarrow>
            old \<in> set (btcPriceHistory s') \<and> timestamp old \<le> now - 30 * minute \<and>
            (\<forall>e\<in>set (btcPriceHistory s'). timestamp old \<le> timestamp e)"
    unfolding oldPrice_def using find_sorted_oldest [OF sh] by blast
  have found: "oldPrice now (btcPriceHistory s') = Some (hd (btcPriceHistory s')) \<and>
      change30m r = Some (percentChange p (price (hd (btcPriceHistory s'))))"
    if "\<exists>e\<in>set (btcPriceHistory s'). timestamp e \<le> now - 30 * minute"
  proof -
    have "oldPrice now (btcPriceHistory s') = Some (hd (btcPriceHistory s'))"
      unfolding oldPrice_def using sh that by (rule find_sorted_head)
    with c show ?thesis by simp
  qed
  have none: "oldPrice now (btcPriceHistory s') = None \<and> change30m r = None"
    if "\<forall>e\<in>set (btcPriceHistory s'). now - 30 * minute < timestamp e"
  proof -
    from that have "oldPrice now (btcPriceHistory s') = None"
      unfolding oldPrice_def by (fastforce simp: find_None_iff)
    with c show ?thesis by simp
  qed
  from retained c oldest found none show ?thesis by blast
qed

theorem comparator_is_oldest_retained_witness:
  "sorted (map timestamp samples_30_20_5) \<and>
   last (map timestamp samples_30_20_5) \<le> 35 * minute \<and>
   map timestamp (btcPriceHistory (snd (calculateBTCChanges (Some 110) (35 * minute)
                     (initial\<lparr> btcPriceHistory := samples_30_20_5 \<rparr>))))
     = [5 * minute, 15 * minute, 30 * minute, 35 * minute] \<and>
   change30m (fst (calculateBTCChanges (Some 110) (35 * minute)
                     (initial\<lparr> btcPriceHistory := samples_30_20_5 \<rparr>)))
     = Some (percentChange 110 100)"
proof -
  let ?s = "initial\<lparr> btcPriceHistory := samples_30_20_5 \<rparr>"
  let ?h = "btcPriceHistory (snd (calculateBTCChanges (Some 110) (35 * minute) ?s))"
  have ordered: "sorted (map timestamp (btcPriceHistory ?s))"
    by (simp add: samples_30_20_5_def minute_def)
  have past: "\<forall>e\<in>set (btcPriceHistory ?s). timestamp e \<le> 35 * minute"
    by (simp add: samples_30_20_5_def minute_def)
  have nonzero: "(110 :: real) \<noteq> 0"
    by simp
  have call: "calculateBTCChanges (Some 110) (35 * minute) ?s
      = (fst (calculateBTCChanges (Some 110) (35 * minute) ?s),
         snd (calculateBTCChanges (Some 110) (35 * minute) ?s))"
    by simp
  have retained: "?h = [\<lparr> price = 100, timestamp = 5 * minute \<rparr>,
      \<lparr> price = 104, timestamp = 15 * minute \<rparr>, \<lparr> price = 108, timestamp = 30 * minute \<rparr>,
      \<lparr> price = 110, timestamp = 35 * minute \<rparr>]"
    by (simp add: samples_30_20_5_def calculateBTCChanges_def fetchBTCPrice_def
        initial_def minute_def Let_def)
  have aged: "\<exists>e\<in>set ?h. timestamp e \<le> 35 * minute - 30 * minute"
    unfolding retained by (simp add: minute_def)
  have latest: "last (map timestamp samples_30_20_5) \<le> 35 * minute"
    by (simp add: samples_30_20_5_def minute_def)
  from comparator_is_oldest_retained [OF ordered past nonzero call] aged
  have "change30m (fst (calculateBTCChanges (Some 110) (35 * minute) ?s))
      = Some (percentChange 110 (price (hd ?h)))"
    by blast
  with retained ordered latest show ?thesis
    by simp
qed

section \<open>The second variant\<close>

text \<open>The target check of the second variant does lower the bottom price.\<close>

lemma checkTargetV_lowers_bottom:
  assumes "map_of (sellPricesV s) symbol = Some sig"
    and "pricesV r = Some ps" and "lastPrice ps = Some cp"
    and "bottomPricesV s symbol = Some b"
    and "cp < sellPriceOf sig"
  shows "bottomPricesV (checkTargetV symbol r s) symbol = Some (min b cp)"
  using assms
  by (auto simp: checkTargetV_def calculateBTCChanges_def fetchBTCPrice_def lowerBottomV_def
      Let_def min_def split: option.splits prod.splits)

text \<open>
  Its detection sweep leaves the state of the symbols alone when a price series is
  missing, records the time before the send, and holds back a second signal for
  five minutes.
\<close>

lemma tracked_fieldsV [simp]:
  fixes s :: stateV
  shows "lastNotificationTimesV (snd (calculateBTCChanges response now s))
      = lastNotificationTimesV s"
    and "sellPricesV (snd (calculateBTCChanges response now s)) = sellPricesV s"
    and "bottomPricesV (snd (calculateBTCChanges response now s)) = bottomPricesV s"
    and "rsiLogV (snd (calculateBTCChanges response now s)) = rsiLogV s"
    and "sentV (snd (calculateBTCChanges response now s)) = sentV s"
    and "editedV (snd (calculateBTCChanges response now s)) = editedV s"
  by (simp_all add: calculateBTCChanges_def fetchBTCPrice_def Let_def split: option.splits)

lemma handleRSIV_unavailable:
  assumes "prices15m env = None \<or> prices1m env = None"
  shows "handleRSIV symbol env s = snd (calculateBTCChanges (btcResponse env) (btcClock env) s)"
  using assms
  by (auto simp: handleRSIV_def case_prod_beta split: option.splits)

lemma raiseSignalV_recent:
  "notifiedRecentlyV symbol (clock env) s \<Longrightarrow> raiseSignalV symbol env btcData cp s = s"
  by (simp add: raiseSignalV_def)

lemma raiseSignalV_opens:
  assumes "\<not> notifiedRecentlyV symbol (clock env) s"
  shows "lastNotificationTimesV (raiseSignalV symbol env btcData (Some cp) s) symbol
           = Some (clock env) \<and>
         sentV (raiseSignalV symbol env btcData (Some cp) s)
           = sentV s @ [BuySignalV symbol cp (toFixed 8 (cp * (1011 / 1000))) btcData] \<and>
         bottomPricesV (raiseSignalV symbol env btcData (Some cp) s) symbol = Some cp"
  using assms by (simp add: raiseSignalV_def Let_def)

lemma handleRSIV_recent_no_signal:
  assumes "notifiedRecentlyV symbol (clock env) s"
  shows "sentV (handleRSIV symbol env s) = sentV s"
proof (cases "prices15m env = None \<or> prices1m env = None")
  case True
  then show ?thesis
    by (simp add: handleRSIV_unavailable)
next
  case False
  then obtain p15 p1 where "prices15m env = Some p15" "prices1m env = Some p1"
    by auto
  moreover have "notifiedRecentlyV symbol (clock env)
      (snd (calculateBTCChanges (btcResponse env) (btcClock env) s)
         \<lparr> rsiLogV := l \<rparr>)" for l
    using assms by (simp add: notifiedRecentlyV_def)
  ultimately show ?thesis
    by (simp add: handleRSIV_def case_prod_beta Let_def raiseSignalV_recent)
qed

end
